theory Spec2Isabelle
  imports
    Complex_Main
    "HOL-Library.Multiset"
    "HOL-Library.Char_ord"
    "HOL-Library.List_Lexorder"
begin

section \<open>The trades table\<close>

text \<open>
  \<^verbatim>\<open>trade_chart.py\<close> works on one pandas DataFrame, \<^verbatim>\<open>df = trades.to_df()\<close>, to which
  it adds columns step by step. A DataFrame is modelled as the list of its rows, in row
  order; each stage of the script that adds columns has its own record type, extending the
  previous one.

  A row of the fetched table: \<^verbatim>\<open>symbol\<close>, \<^verbatim>\<open>ts_event\<close> (the instant, as nanoseconds since the
  epoch, UTC), \<^verbatim>\<open>price\<close> and \<^verbatim>\<open>size\<close>. The column \<^verbatim>\<open>size\<close> is called \<open>size_col\<close> here,
  since \<open>size\<close> is a constant of HOL. Prices of the trades schema are finite float64
  values; they are modelled as exact rationals, so the rounding of float64 arithmetic is
  not part of the model. \<^verbatim>\<open>size\<close> is an unsigned integer column; its sums are modelled as
  natural numbers (no wrap-around at 64 bits).
\<close>

record trade =
  symbol :: string
  ts_event :: int
  price :: rat
  size_col :: nat

text \<open>
  A float64 value computed by pandas: a finite number, or one of the three special values
  that float64 division and the reductions of an empty column produce.
\<close>

datatype float64 = Fin rat | NaN | PosInf | NegInf

text \<open>
  \<^verbatim>\<open>a / b\<close> on a float64 column and an unsigned integer column. numpy raises no exception
  on a zero divisor: \<^verbatim>\<open>0.0 / 0\<close> is NaN and \<^verbatim>\<open>x / 0\<close> is plus or minus infinity.
\<close>

definition truediv :: "rat \<Rightarrow> nat \<Rightarrow> float64" where
  "truediv a b =
     (if b \<noteq> 0 then Fin (a / of_nat b)
      else if a = 0 then NaN
      else if 0 < a then PosInf
      else NegInf)"

text \<open>\<^verbatim>\<open>==\<close> on float64 values: NaN is equal to nothing, not even to itself.\<close>

fun float_eq :: "float64 \<Rightarrow> float64 \<Rightarrow> bool" where
  "float_eq NaN b = False"
| "float_eq a NaN = False"
| "float_eq a b = (a = b)"

text \<open>\<^verbatim>\<open>Series.cumsum()\<close>: the running total, one entry per entry of the column.\<close>

fun cumsum_from :: "'a::monoid_add \<Rightarrow> 'a list \<Rightarrow> 'a list" where
  "cumsum_from acc [] = []"
| "cumsum_from acc (x # xs) = (acc + x) # cumsum_from (acc + x) xs"

definition cumsum :: "'a::monoid_add list \<Rightarrow> 'a list" where
  "cumsum xs = cumsum_from 0 xs"

text \<open>
  \<^verbatim>\<open>Series.max()\<close> and \<^verbatim>\<open>Series.min()\<close> of a float64 column of finite values: NaN for
  the empty column.
\<close>

fun series_max :: "rat list \<Rightarrow> float64" where
  "series_max [] = NaN"
| "series_max (x # xs) = Fin (fold max xs x)"

fun series_min :: "rat list \<Rightarrow> float64" where
  "series_min [] = NaN"
| "series_min (x # xs) = Fin (fold min xs x)"

section \<open>calculate\_vwap\<close>

text \<open>
  \<^verbatim>\<open>
  def calculate_vwap(df):
      df['volume_price'] = df['price'] * df['size']
      df['cumulative_volume'] = df['size'].cumsum()
      df['cumulative_volume_price'] = df['volume_price'].cumsum()
      df['vwap'] = df['cumulative_volume_price'] / df['cumulative_volume']
      return df
  \<close>
\<close>

record vwap_row = trade +
  volume_price :: rat
  cumulative_volume :: nat
  cumulative_volume_price :: rat
  vwap :: float64

definition calculate_vwap :: "trade list \<Rightarrow> vwap_row list" where
  "calculate_vwap df =
     (let volume_price_col = map (\<lambda>r. price r * of_nat (size_col r)) df;
          cumulative_volume_col = cumsum (map size_col df);
          cumulative_volume_price_col = cumsum volume_price_col
      in map (\<lambda>i. trade.extend (df ! i)
                 (vwap_row.fields
                    (volume_price_col ! i)
                    (cumulative_volume_col ! i)
                    (cumulative_volume_price_col ! i)
                    (truediv (cumulative_volume_price_col ! i) (cumulative_volume_col ! i))))
           [0..<length df])"

section \<open>Range filter and sort\<close>

text \<open>
  \<^verbatim>\<open>df = df[(df['ts_event'] >= start_ts) & (df['ts_event'] <= end_ts)]\<close>, the two bounds
  being the instants of the two date strings.
\<close>

definition filter_range :: "int \<Rightarrow> int \<Rightarrow> vwap_row list \<Rightarrow> vwap_row list" where
  "filter_range start_ts end_ts df =
     filter (\<lambda>r. start_ts \<le> ts_event r \<and> ts_event r \<le> end_ts) df"

text \<open>
  \<^verbatim>\<open>df = df.sort_values('ts_event')\<close>. pandas computes an indexer from the key column alone
  (\<^verbatim>\<open>nargsort\<close>, at the default \<^verbatim>\<open>kind='quicksort'\<close>) and takes the rows in that order. The
  argsort routine belongs to the library; it is a parameter of the model.
\<close>

definition sort_values :: "(int list \<Rightarrow> nat list) \<Rightarrow> vwap_row list \<Rightarrow> vwap_row list" where
  "sort_values argsort df = map (\<lambda>i. df ! i) (argsort (map ts_event df))"

text \<open>
  What the library promises of the indexer for the keys at hand: it is a permutation of
  the positions, and the keys read in its order are non-decreasing.
\<close>

definition is_argsort :: "int list \<Rightarrow> nat list \<Rightarrow> bool" where
  "is_argsort keys idx =
     (sort idx = [0..<length keys] \<and> sorted (map (\<lambda>i. keys ! i) idx))"

subsection \<open>The library's default argsort\<close>

text \<open>
  At \<^verbatim>\<open>kind='quicksort'\<close> the indexer comes from numpy's \<^verbatim>\<open>argsort\<close>, whose generic
  routine \<^verbatim>\<open>aquicksort\<close> (npysort/quicksort.cpp) is an introsort on the index array
  \<^verbatim>\<open>tosort\<close>: median-of-three partitioning while a range has more than
  \<^verbatim>\<open>SMALL_QUICKSORT\<close> entries, insertion sort on the short ranges, heapsort once the depth
  budget \<^verbatim>\<open>2 * npy_get_msb(num)\<close> is spent. It is transcribed here, with the index array as
  a list and the C pointers \<^verbatim>\<open>pl, pr, pm, pi, pj, pk\<close> as positions in it (\<open>p_i\<close> and \<open>p_j\<close>
  stand for \<^verbatim>\<open>pi\<close> and \<^verbatim>\<open>pj\<close>), so that witnesses can run the sort the script runs.
\<close>

definition SMALL_QUICKSORT :: nat where
  "SMALL_QUICKSORT = 16"

text \<open>\<^verbatim>\<open>while (unum >>= 1) depth_limit++;\<close>\<close>

fun npy_get_msb :: "nat \<Rightarrow> nat" where
  "npy_get_msb unum = (if unum div 2 = 0 then 0 else Suc (npy_get_msb (unum div 2)))"

definition intp_swap :: "nat list \<Rightarrow> nat \<Rightarrow> nat \<Rightarrow> nat list" where
  "intp_swap t i j = t[i := t ! j, j := t ! i]"

text \<open>
  The insertion sort of a range \<open>pl..pr\<close>:
  \<^verbatim>\<open>
  for (pi = pl + 1; pi <= pr; ++pi) {
      vi = *pi; vp = v[vi]; pj = pi; pk = pi - 1;
      while (pj > pl && vp < v[*pk]) { *pj-- = *pk--; }
      *pj = vi;
  }
  \<close>
\<close>

fun insert_down :: "int list \<Rightarrow> int \<Rightarrow> nat \<Rightarrow> nat \<Rightarrow> nat list \<Rightarrow> nat list \<times> nat" where
  "insert_down v vp pl 0 t = (t, 0)"
| "insert_down v vp pl (Suc pk) t =
     (if pl < Suc pk \<and> vp < v ! (t ! pk)
      then insert_down v vp pl pk (t[Suc pk := t ! pk])
      else (t, Suc pk))"

definition insertion_sort :: "int list \<Rightarrow> nat list \<Rightarrow> nat \<Rightarrow> nat \<Rightarrow> nat list" where
  "insertion_sort v t pl pr =
     fold (\<lambda>p_i t. let vi = t ! p_i in
                    case insert_down v (v ! vi) pl p_i t of (t', p_j) \<Rightarrow> t'[p_j := vi])
       [pl + 1..<pr + 1] t"

text \<open>
  The two scans of the partition loop, \<^verbatim>\<open>do { ++pi; } while (v[*pi] < vp);\<close> and
  \<^verbatim>\<open>do { --pj; } while (vp < v[*pj]);\<close>. In C they stop at the sentinels that the median
  of three leaves at both ends of the range; the model also stops them at the ends of the
  array.
\<close>

function scan_up :: "int list \<Rightarrow> int \<Rightarrow> nat list \<Rightarrow> nat \<Rightarrow> nat" where
  "scan_up v vp t p_i =
     (if p_i + 1 < length t \<and> v ! (t ! (p_i + 1)) < vp
      then scan_up v vp t (p_i + 1) else p_i + 1)"
  by pat_completeness auto
termination
  by (relation "measure (\<lambda>(v, vp, t, p_i). length t - p_i)") auto

fun scan_down :: "int list \<Rightarrow> int \<Rightarrow> nat list \<Rightarrow> nat \<Rightarrow> nat" where
  "scan_down v vp t 0 = 0"
| "scan_down v vp t (Suc p_j) = (if vp < v ! (t ! p_j) then scan_down v vp t p_j else p_j)"

text \<open>
  \<^verbatim>\<open>
  for (;;) {
      do { ++pi; } while (v[*pi] < vp);
      do { --pj; } while (vp < v[*pj]);
      if (pi >= pj) { break; }
      INTP_SWAP(*pi, *pj);
  }
  \<close>
\<close>

function partition_loop :: "int list \<Rightarrow> int \<Rightarrow> nat list \<Rightarrow> nat \<Rightarrow> nat \<Rightarrow> nat list \<times> nat" where
  "partition_loop v vp t p_i p_j =
     (let p_i' = scan_up v vp t p_i; p_j' = scan_down v vp t p_j
      in if p_j' \<le> p_i' then (t, p_i')
         else partition_loop v vp (intp_swap t p_i' p_j') p_i' p_j')"
  by pat_completeness auto
termination
proof (relation "measure (\<lambda>(v, vp, t, p_i, p_j). p_j)")
  show "wf (measure (\<lambda>(v, vp, t, p_i, p_j). p_j))"
    by simp
next
  fix v :: "int list" and vp :: int and t :: "nat list" and p_i p_j x xa :: nat
  assume xa: "xa = scan_down v vp t p_j" and n: "\<not> xa \<le> x"
  have dec: "scan_down v vp t k < k" if "0 < k" for k
    using that by (induction k) (auto simp: less_Suc_eq)
  have "0 < p_j"
    using n xa by (cases p_j) auto
  then show "((v, vp, intp_swap t x xa, x, xa), v, vp, t, p_i, p_j)
      \<in> measure (\<lambda>(v, vp, t, p_i, p_j). p_j)"
    using dec [of p_j] xa by simp
qed

text \<open>
  The median of three, the pivot moved next to the right end, the loop, and the pivot
  moved to its place \<^verbatim>\<open>pi\<close>.
\<close>

definition partition :: "int list \<Rightarrow> nat list \<Rightarrow> nat \<Rightarrow> nat \<Rightarrow> nat list \<times> nat" where
  "partition v t pl pr =
     (let pm = pl + (pr - pl) div 2;
          t = (if v ! (t ! pm) < v ! (t ! pl) then intp_swap t pm pl else t);
          t = (if v ! (t ! pr) < v ! (t ! pm) then intp_swap t pr pm else t);
          t = (if v ! (t ! pm) < v ! (t ! pl) then intp_swap t pm pl else t);
          vp = v ! (t ! pm);
          t = intp_swap t pm (pr - 1)
      in case partition_loop v vp t pl (pr - 1) of
           (t, p_i) \<Rightarrow> (intp_swap t p_i (pr - 1), p_i))"

text \<open>
  \<^verbatim>\<open>aheapsort\<close> on the \<open>n\<close> entries from \<open>pl\<close>, with the 1-based indexing
  \<^verbatim>\<open>a = tosort - 1\<close> of the C code: \<^verbatim>\<open>a[k]\<close> is the entry at \<open>pl + k - 1\<close>. \<open>sift_down\<close> is
  the inner loop \<^verbatim>\<open>for (i = l, j = l << 1; j <= n;)\<close>, which is only entered with
  \<open>0 < j\<close>.
\<close>

function sift_down ::
  "int list \<Rightarrow> nat \<Rightarrow> nat \<Rightarrow> nat \<Rightarrow> nat list \<Rightarrow> nat \<Rightarrow> nat \<Rightarrow> nat list" where
  "sift_down v tmp pl n t i j =
     (if 0 < j \<and> j \<le> n then
        (let j = (if j < n \<and> v ! (t ! (pl + j - 1)) < v ! (t ! (pl + j)) then j + 1 else j)
         in if v ! tmp < v ! (t ! (pl + j - 1))
            then sift_down v tmp pl n (t[pl + i - 1 := t ! (pl + j - 1)]) j (j + j)
            else t[pl + i - 1 := tmp])
      else t[pl + i - 1 := tmp])"
  by pat_completeness auto
termination
  by (relation "measure (\<lambda>(v, tmp, pl, n, t, i, j). Suc n - j)") auto

definition aheapsort :: "int list \<Rightarrow> nat list \<Rightarrow> nat \<Rightarrow> nat \<Rightarrow> nat list" where
  "aheapsort v t pl n =
     (let t = fold (\<lambda>l t. sift_down v (t ! (pl + l - 1)) pl n t l (2 * l))
                (rev [1..<n div 2 + 1]) t
      in fold (\<lambda>m t. let tmp = t ! (pl + m - 1);
                        t = t[pl + m - 1 := t ! pl]
                    in sift_down v tmp pl (m - 1) t 1 2)
           (rev [2..<n + 1]) t)"

text \<open>
  The main loop with its explicit stack, as a recursion: after a partition the larger
  part is pushed with the decremented depth and the smaller part is continued with;
  \<open>popped\<close> says that the range comes from the stack, where the depth is tested first.
  The pivot position lies strictly inside the range (it is found between the two
  sentinels); the model tests this where the C code relies on it.
\<close>

function aquicksort_range ::
  "int list \<Rightarrow> nat list \<Rightarrow> nat \<Rightarrow> nat \<Rightarrow> int \<Rightarrow> bool \<Rightarrow> nat list" where
  "aquicksort_range v t pl pr cdepth popped =
     (if popped \<and> cdepth < 0 then aheapsort v t pl (pr + 1 - pl)
      else if SMALL_QUICKSORT < pr - pl then
        (case partition v t pl pr of (t, p_i) \<Rightarrow>
           if pl < p_i \<and> p_i < pr then
             (if p_i - pl < pr - p_i
              then aquicksort_range v
                     (aquicksort_range v t pl (p_i - 1) (cdepth - 1) False)
                     (p_i + 1) pr (cdepth - 1) True
              else aquicksort_range v
                     (aquicksort_range v t (p_i + 1) pr (cdepth - 1) False)
                     pl (p_i - 1) (cdepth - 1) True)
           else t)
      else insertion_sort v t pl pr)"
  by pat_completeness auto
termination
  by (relation "measure (\<lambda>(v, t, pl, pr, cdepth, popped). pr - pl)") auto

definition aquicksort :: "int list \<Rightarrow> nat list" where
  "aquicksort v =
     aquicksort_range v [0..<length v] 0 (length v - 1)
       (2 * int (npy_get_msb (length v))) False"

section \<open>Extrema flags, notes and minute volume\<close>

text \<open>
  \<^verbatim>\<open>df['hour'] = df['ts_event_et'].dt.strftime('%Y-%m-%d %H:00')\<close> and
  \<^verbatim>\<open>df['minute'] = df['ts_event_et'].dt.strftime('%Y-%m-%d %H:%M')\<close>: the conversion of an
  instant to New York wall-clock time and its formatting belong to the time-zone library;
  the two resulting functions from instants to keys are parameters \<open>hour_fmt\<close> and
  \<open>minute_fmt\<close> of the model.

  \<^verbatim>\<open>hourly_stats = df.groupby('hour')['price'].agg(['max', 'min']).reset_index()\<close>: one
  row per distinct key, in ascending key order.
\<close>

definition groupby_hour_price ::
  "(int \<Rightarrow> string) \<Rightarrow> vwap_row list \<Rightarrow> (string \<times> float64 \<times> float64) list" where
  "groupby_hour_price hour_fmt df =
     map (\<lambda>h. let g = map price (filter (\<lambda>r. hour_fmt (ts_event r) = h) df)
              in (h, series_max g, series_min g))
       (sort (remdups (map (\<lambda>r. hour_fmt (ts_event r)) df)))"

record flagged_row = vwap_row +
  hour :: string
  is_hourly_high :: bool
  is_hourly_low :: bool
  is_day_high :: bool
  is_day_low :: bool

text \<open>
  \<^verbatim>\<open>
  df['is_hourly_high'] = False
  df['is_hourly_low'] = False
  df['is_day_high'] = df['price'] == day_high
  df['is_day_low'] = df['price'] == day_low
  \<close>
\<close>

definition init_flags :: "(int \<Rightarrow> string) \<Rightarrow> float64 \<Rightarrow> float64 \<Rightarrow> vwap_row \<Rightarrow> flagged_row" where
  "init_flags hour_fmt dh dl r =
     vwap_row.extend r
       (flagged_row.fields (hour_fmt (ts_event r)) False False
          (float_eq (Fin (price r)) dh) (float_eq (Fin (price r)) dl))"

text \<open>
  One pass of the loop over \<^verbatim>\<open>hourly_stats.iterrows()\<close>:
  \<^verbatim>\<open>
  hour_mask = df['hour'] == row['hour']
  df.loc[hour_mask & (df['price'] == row['max']), 'is_hourly_high'] = True
  df.loc[hour_mask & (df['price'] == row['min']), 'is_hourly_low'] = True
  \<close>
\<close>

definition mark_hour :: "string \<times> float64 \<times> float64 \<Rightarrow> flagged_row list \<Rightarrow> flagged_row list" where
  "mark_hour row df =
     (case row of (h, mx, mn) \<Rightarrow>
        map (\<lambda>r. if hour r = h \<and> float_eq (Fin (price r)) mn
                 then r\<lparr>is_hourly_low := True\<rparr> else r)
          (map (\<lambda>r. if hour r = h \<and> float_eq (Fin (price r)) mx
                    then r\<lparr>is_hourly_high := True\<rparr> else r) df))"

text \<open>The column \<^verbatim>\<open>note\<close> is called \<open>note_col\<close>: \<open>note\<close> is a keyword of Isabelle.\<close>

record noted_row = flagged_row +
  note_col :: string

text \<open>
  \<^verbatim>\<open>
  df['note'] = ''
  df.loc[df['is_hourly_high'], 'note'] = 'HOUR_HIGH'
  df.loc[df['is_hourly_low'], 'note'] = 'HOUR_LOW'
  df.loc[df['is_day_high'], 'note'] = 'DAY_HIGH'
  df.loc[df['is_day_low'], 'note'] = 'DAY_LOW'
  \<close>
\<close>

definition loc_set_note :: "(noted_row \<Rightarrow> bool) \<Rightarrow> string \<Rightarrow> noted_row list \<Rightarrow> noted_row list" where
  "loc_set_note row_mask s df = map (\<lambda>r. if row_mask r then r\<lparr>note_col := s\<rparr> else r) df"

definition add_notes :: "flagged_row list \<Rightarrow> noted_row list" where
  "add_notes df =
     loc_set_note is_day_low ''DAY_LOW''
       (loc_set_note is_day_high ''DAY_HIGH''
          (loc_set_note is_hourly_low ''HOUR_LOW''
             (loc_set_note is_hourly_high ''HOUR_HIGH''
                (map (\<lambda>r. flagged_row.extend r (noted_row.fields '''')) df))))"

text \<open>
  The rows written by \<^verbatim>\<open>to_csv\<close>: the columns \<^verbatim>\<open>symbol, ts_event_et, price, vwap, size,
  note\<close>. \<^verbatim>\<open>ts_event_et\<close> is the instant of \<^verbatim>\<open>ts_event\<close>, shown in New York time.
\<close>

definition to_csv :: "noted_row list \<Rightarrow> (string \<times> int \<times> rat \<times> float64 \<times> nat \<times> string) list" where
  "to_csv df = map (\<lambda>r. (symbol r, ts_event r, price r, vwap r, size_col r, note_col r)) df"

text \<open>\<^verbatim>\<open>volume_by_minute = df.groupby('minute')['size'].sum().reset_index()\<close>\<close>

definition groupby_minute_size ::
  "(int \<Rightarrow> string) \<Rightarrow> noted_row list \<Rightarrow> (string \<times> nat) list" where
  "groupby_minute_size minute_fmt df =
     map (\<lambda>m. (m, sum_list (map size_col (filter (\<lambda>r. minute_fmt (ts_event r) = m) df))))
       (sort (remdups (map (\<lambda>r. minute_fmt (ts_event r)) df)))"

section \<open>fetch\_and\_chart\_trades\<close>

text \<open>
  What the function computes from the fetched table, up to the point where the chart is
  drawn: the final table, the rows of the CSV file, the hourly statistics, the day's high
  and low and the volume per minute. The fetch itself, the printing and the chart belong
  to the libraries.
\<close>

record chart_data =
  out_df :: "noted_row list"
  csv_rows :: "(string \<times> int \<times> rat \<times> float64 \<times> nat \<times> string) list"
  hourly_stats :: "(string \<times> float64 \<times> float64) list"
  day_high :: float64
  day_low :: float64
  volume_by_minute :: "(string \<times> nat) list"

definition normalized ::
  "(int list \<Rightarrow> nat list) \<Rightarrow> int \<Rightarrow> int \<Rightarrow> trade list \<Rightarrow> vwap_row list" where
  "normalized argsort start_ts end_ts trades_df =
     sort_values argsort (filter_range start_ts end_ts (calculate_vwap trades_df))"

definition label_rows :: "(int \<Rightarrow> string) \<Rightarrow> vwap_row list \<Rightarrow> noted_row list" where
  "label_rows hour_fmt df =
     add_notes
       (fold mark_hour (groupby_hour_price hour_fmt df)
          (map (init_flags hour_fmt (series_max (map price df)) (series_min (map price df))) df))"

definition fetch_and_chart_trades ::
  "(int \<Rightarrow> string) \<Rightarrow> (int \<Rightarrow> string) \<Rightarrow> (int list \<Rightarrow> nat list) \<Rightarrow>
     int \<Rightarrow> int \<Rightarrow> trade list \<Rightarrow> chart_data" where
  "fetch_and_chart_trades hour_fmt minute_fmt argsort start_ts end_ts trades_df =
     (let df = normalized argsort start_ts end_ts trades_df;
          stats = groupby_hour_price hour_fmt df;
          dh = series_max (map price df);
          dl = series_min (map price df);
          df = label_rows hour_fmt df
      in \<lparr>out_df = df, csv_rows = to_csv df, hourly_stats = stats,
          day_high = dh, day_low = dl,
          volume_by_minute = groupby_minute_size minute_fmt df\<rparr>)"

section \<open>Example inputs\<close>

text \<open>
  A small batch of 23 December 2024, used where a statement is run on a concrete input.
  The bounds are the instants of the dates \<^verbatim>\<open>2024-12-23\<close> and \<^verbatim>\<open>2024-12-24\<close>. The first trade
  lies before the start; the others lie at 10:00, 09:30:00, 09:30:30, 09:31 and 09:31 New
  York time, in this fetch order. The two key functions format New York time on that
  morning.
\<close>

definition demo_hour_fmt :: "int \<Rightarrow> string" where
  "demo_hour_fmt ts =
     (if ts < 1734966000000000000 then ''2024-12-23 09:00'' else ''2024-12-23 10:00'')"

definition demo_minute_fmt :: "int \<Rightarrow> string" where
  "demo_minute_fmt ts =
     (if ts < 1734964260000000000 then ''2024-12-23 09:30''
      else if ts < 1734966000000000000 then ''2024-12-23 09:31''
      else ''2024-12-23 10:00'')"

definition demo_start :: int where
  "demo_start = 1734912000000000000"

definition demo_end :: int where
  "demo_end = 1734998400000000000"

definition demo_trades :: "trade list" where
  "demo_trades =
     [\<lparr>symbol = ''PLTR'', ts_event = 1734910000000000000, price = 79, size_col = 200\<rparr>,
      \<lparr>symbol = ''PLTR'', ts_event = 1734966000000000000, price = 81, size_col = 30\<rparr>,
      \<lparr>symbol = ''PLTR'', ts_event = 1734964200000000000, price = 80, size_col = 100\<rparr>,
      \<lparr>symbol = ''PLTR'', ts_event = 1734964230000000000, price = 81, size_col = 5\<rparr>,
      \<lparr>symbol = ''PLTR'', ts_event = 1734964260000000000, price = 82, size_col = 50\<rparr>,
      \<lparr>symbol = ''PLTR'', ts_event = 1734964260000000000, price = 82, size_col = 10\<rparr>]"

definition demo_chart :: chart_data where
  "demo_chart =
     fetch_and_chart_trades demo_hour_fmt demo_minute_fmt aquicksort demo_start demo_end
       demo_trades"

text \<open>
  Four trades at the edges of the range: one nanosecond after the end, at the end, at the
  start, and one nanosecond before the start.
\<close>

definition edge_trades :: "trade list" where
  "edge_trades =
     [\<lparr>symbol = ''PLTR'', ts_event = 1734998400000000001, price = 83, size_col = 7\<rparr>,
      \<lparr>symbol = ''PLTR'', ts_event = 1734998400000000000, price = 82, size_col = 5\<rparr>,
      \<lparr>symbol = ''PLTR'', ts_event = 1734912000000000000, price = 80, size_col = 3\<rparr>,
      \<lparr>symbol = ''PLTR'', ts_event = 1734911999999999999, price = 79, size_col = 2\<rparr>]"

section \<open>Auxiliary facts\<close>

subsection \<open>Reductions and float64 equality\<close>

lemma series_max_Max: "series_max xs = Fin (Max (set xs))" if "xs \<noteq> []"
proof (cases xs)
  case Nil
  then show ?thesis using that by simp
next
  case (Cons a list)
  then show ?thesis using Max.set_eq_fold [of a list] by simp
qed

lemma series_min_Min: "series_min xs = Fin (Min (set xs))" if "xs \<noteq> []"
proof (cases xs)
  case Nil
  then show ?thesis using that by simp
next
  case (Cons a list)
  then show ?thesis using Min.set_eq_fold [of a list] by simp
qed

subsection \<open>The labelling stage, row by row\<close>

lemma add_notes_map:
  "add_notes df =
     map (\<lambda>r. flagged_row.extend r (noted_row.fields
            (if is_day_low r then ''DAY_LOW''
             else if is_day_high r then ''DAY_HIGH''
             else if is_hourly_low r then ''HOUR_LOW''
             else if is_hourly_high r then ''HOUR_HIGH''
             else ''''))) df"
  by (simp add: add_notes_def loc_set_note_def flagged_row.defs noted_row.defs)

lemma fold_mark_hour:
  "fold mark_hour stats df =
     map (\<lambda>r. r\<lparr>is_hourly_high := is_hourly_high r \<or>
                    (\<exists>row \<in> set stats. hour r = fst row \<and>
                       float_eq (Fin (price r)) (fst (snd row))),
                 is_hourly_low := is_hourly_low r \<or>
                    (\<exists>row \<in> set stats. hour r = fst row \<and>
                       float_eq (Fin (price r)) (snd (snd row)))\<rparr>) df"
proof (induction stats arbitrary: df)
  case Nil
  show ?case by (simp add: map_idI)
next
  case (Cons row stats)
  show ?case
    unfolding fold_simps Cons.IH
    by (cases row) (auto simp: mark_hour_def)
qed

lemma label_rows_rowwise:
  obtains f where
    "label_rows hf df = map f df"
    "\<And>r. symbol (f r) = symbol r"
    "\<And>r. ts_event (f r) = ts_event r"
    "\<And>r. price (f r) = price r"
    "\<And>r. size_col (f r) = size_col r"
    "\<And>r. vwap (f r) = vwap r"
    "\<And>r. hour (f r) = hf (ts_event r)"
    "\<And>r. is_day_high (f r) = float_eq (Fin (price r)) (series_max (map price df))"
    "\<And>r. is_day_low (f r) = float_eq (Fin (price r)) (series_min (map price df))"
    "\<And>r. is_hourly_high (f r) = (\<exists>row \<in> set (groupby_hour_price hf df).
            hf (ts_event r) = fst row \<and> float_eq (Fin (price r)) (fst (snd row)))"
    "\<And>r. is_hourly_low (f r) = (\<exists>row \<in> set (groupby_hour_price hf df).
            hf (ts_event r) = fst row \<and> float_eq (Fin (price r)) (snd (snd row)))"
    "\<And>r. note_col (f r) =
           (if is_day_low (f r) then ''DAY_LOW''
            else if is_day_high (f r) then ''DAY_HIGH''
            else if is_hourly_low (f r) then ''HOUR_LOW''
            else if is_hourly_high (f r) then ''HOUR_HIGH''
            else '''')"
proof -
  define dh where "dh = series_max (map price df)"
  define dl where "dl = series_min (map price df)"
  define stats where "stats = groupby_hour_price hf df"
  define g where "g = (\<lambda>r::flagged_row. r\<lparr>is_hourly_high := is_hourly_high r \<or>
                    (\<exists>row \<in> set stats. hour r = fst row \<and>
                       float_eq (Fin (price r)) (fst (snd row))),
                 is_hourly_low := is_hourly_low r \<or>
                    (\<exists>row \<in> set stats. hour r = fst row \<and>
                       float_eq (Fin (price r)) (snd (snd row)))\<rparr>)"
  define n where "n = (\<lambda>r::flagged_row. flagged_row.extend r (noted_row.fields
            (if is_day_low r then ''DAY_LOW''
             else if is_day_high r then ''DAY_HIGH''
             else if is_hourly_low r then ''HOUR_LOW''
             else if is_hourly_high r then ''HOUR_HIGH''
             else '''')))"
  define f where "f = (\<lambda>r. n (g (init_flags hf dh dl r)))"
  have 1: "label_rows hf df = map f df"
    by (simp add: label_rows_def add_notes_map fold_mark_hour f_def n_def g_def dh_def dl_def
        stats_def o_def)
  have 2: "note_col (n r) =
           (if is_day_low (n r) then ''DAY_LOW''
            else if is_day_high (n r) then ''DAY_HIGH''
            else if is_hourly_low (n r) then ''HOUR_LOW''
            else if is_hourly_high (n r) then ''HOUR_HIGH''
            else '''')" for r
    unfolding n_def by (simp add: flagged_row.defs noted_row.defs)
  show thesis
  proof (rule that [of f])
    show "note_col (f r) =
           (if is_day_low (f r) then ''DAY_LOW''
            else if is_day_high (f r) then ''DAY_HIGH''
            else if is_hourly_low (f r) then ''HOUR_LOW''
            else if is_hourly_high (f r) then ''HOUR_HIGH''
            else '''')" for r
      unfolding f_def by (rule 2)
  qed (simp_all add: 1 f_def n_def g_def init_flags_def dh_def dl_def stats_def
        trade.defs vwap_row.defs flagged_row.defs noted_row.defs)
qed

lemma out_df_eq:
  "out_df (fetch_and_chart_trades hf mf argsort s e trades_df) =
     label_rows hf (normalized argsort s e trades_df)"
  by (simp add: fetch_and_chart_trades_def Let_def)

lemma csv_rows_eq:
  "csv_rows (fetch_and_chart_trades hf mf argsort s e trades_df) =
     to_csv (out_df (fetch_and_chart_trades hf mf argsort s e trades_df))"
  by (simp add: fetch_and_chart_trades_def Let_def)
subsection \<open>The flags, in terms of the table\<close>

lemma hour_high_iff:
  assumes "r \<in> set df"
  shows "(\<exists>row \<in> set (groupby_hour_price hf df).
            hf (ts_event r) = fst row \<and> float_eq (Fin (price r)) (fst (snd row)))
         \<longleftrightarrow> price r = Max (price ` {r' \<in> set df. hf (ts_event r') = hf (ts_event r)})"
proof -
  let ?g = "map price (filter (\<lambda>r'. hf (ts_event r') = hf (ts_event r)) df)"
  have ne: "?g \<noteq> []"
    using assms by (auto simp: filter_empty_conv)
  have s: "set ?g = price ` {r' \<in> set df. hf (ts_event r') = hf (ts_event r)}"
    by auto
  have "(\<exists>row \<in> set (groupby_hour_price hf df).
            hf (ts_event r) = fst row \<and> float_eq (Fin (price r)) (fst (snd row)))
        \<longleftrightarrow> float_eq (Fin (price r)) (series_max ?g)"
    using assms by (auto simp: groupby_hour_price_def Let_def)
  then show ?thesis
    using ne s by (simp add: series_max_Max)
qed

lemma hour_low_iff:
  assumes "r \<in> set df"
  shows "(\<exists>row \<in> set (groupby_hour_price hf df).
            hf (ts_event r) = fst row \<and> float_eq (Fin (price r)) (snd (snd row)))
         \<longleftrightarrow> price r = Min (price ` {r' \<in> set df. hf (ts_event r') = hf (ts_event r)})"
proof -
  let ?g = "map price (filter (\<lambda>r'. hf (ts_event r') = hf (ts_event r)) df)"
  have ne: "?g \<noteq> []"
    using assms by (auto simp: filter_empty_conv)
  have s: "set ?g = price ` {r' \<in> set df. hf (ts_event r') = hf (ts_event r)}"
    by auto
  have "(\<exists>row \<in> set (groupby_hour_price hf df).
            hf (ts_event r) = fst row \<and> float_eq (Fin (price r)) (snd (snd row)))
        \<longleftrightarrow> float_eq (Fin (price r)) (series_min ?g)"
    using assms by (auto simp: groupby_hour_price_def Let_def)
  then show ?thesis
    using ne s by (simp add: series_min_Min)
qed

text \<open>The four flags of a row of the labelled table, in terms of that table.\<close>

lemma label_rows_flags:
  assumes "r \<in> set (label_rows hf df)"
  shows "is_hourly_high r \<longleftrightarrow>
           price r = Max (price ` {r' \<in> set (label_rows hf df). hour r' = hour r})"
    and "is_hourly_low r \<longleftrightarrow>
           price r = Min (price ` {r' \<in> set (label_rows hf df). hour r' = hour r})"
    and "is_day_high r \<longleftrightarrow> price r = Max (price ` set (label_rows hf df))"
    and "is_day_low r \<longleftrightarrow> price r = Min (price ` set (label_rows hf df))"
proof -
  obtain f where f: "label_rows hf df = map f df"
    and p: "\<And>r. price (f r) = price r"
    and h: "\<And>r. hour (f r) = hf (ts_event r)"
    and dh: "\<And>r. is_day_high (f r) = float_eq (Fin (price r)) (series_max (map price df))"
    and dl: "\<And>r. is_day_low (f r) = float_eq (Fin (price r)) (series_min (map price df))"
    and hh: "\<And>r. is_hourly_high (f r) = (\<exists>row \<in> set (groupby_hour_price hf df).
            hf (ts_event r) = fst row \<and> float_eq (Fin (price r)) (fst (snd row)))"
    and hl: "\<And>r. is_hourly_low (f r) = (\<exists>row \<in> set (groupby_hour_price hf df).
            hf (ts_event r) = fst row \<and> float_eq (Fin (price r)) (snd (snd row)))"
    by (rule label_rows_rowwise [of hf df]) blast
  from assms obtain r0 where r0: "r0 \<in> set df" and r: "r = f r0"
    by (auto simp: f)
  have ne: "map price df \<noteq> []"
    using r0 by auto
  have grp: "price ` {r' \<in> set (label_rows hf df). hour r' = hour r}
      = price ` {r' \<in> set df. hf (ts_event r') = hf (ts_event r0)}"
  proof -
    have "{r' \<in> set (label_rows hf df). hour r' = hour r}
        = f ` {r' \<in> set df. hf (ts_event r') = hf (ts_event r0)}"
      by (auto simp: f r h)
    then show ?thesis
      by (simp add: image_image p)
  qed
  have all: "price ` set (label_rows hf df) = set (map price df)"
    by (simp add: f image_image p)
  show "is_hourly_high r \<longleftrightarrow>
           price r = Max (price ` {r' \<in> set (label_rows hf df). hour r' = hour r})"
    unfolding grp using hour_high_iff [OF r0, of hf] by (simp add: r hh p)
  show "is_hourly_low r \<longleftrightarrow>
           price r = Min (price ` {r' \<in> set (label_rows hf df). hour r' = hour r})"
    unfolding grp using hour_low_iff [OF r0, of hf] by (simp add: r hl p)
  show "is_day_high r \<longleftrightarrow> price r = Max (price ` set (label_rows hf df))"
    unfolding all by (simp add: r dh p series_max_Max [OF ne])
  show "is_day_low r \<longleftrightarrow> price r = Min (price ` set (label_rows hf df))"
    unfolding all by (simp add: r dl p series_min_Min [OF ne])
qed

subsection \<open>calculate\_vwap, row by row\<close>

lemma length_cumsum_from [simp]: "length (cumsum_from a xs) = length xs"
  by (induction xs arbitrary: a) auto

lemma cumsum_from_nth:
  "i < length xs \<Longrightarrow> cumsum_from a xs ! i = a + sum_list (take (Suc i) xs)"
proof (induction xs arbitrary: a i)
  case Nil
  then show ?case by simp
next
  case (Cons x xs)
  show ?case
  proof (cases i)
    case 0
    then show ?thesis by simp
  next
    case (Suc j)
    then show ?thesis
      using Cons.IH [of j "a + x"] Cons.prems by (simp add: add.assoc)
  qed
qed

lemma cumsum_nth: "i < length xs \<Longrightarrow> cumsum xs ! i = sum_list (take (Suc i) xs)"
  by (simp add: cumsum_def cumsum_from_nth)

lemma length_calculate_vwap [simp]: "length (calculate_vwap df) = length df"
  by (simp add: calculate_vwap_def Let_def)

lemma calculate_vwap_nth:
  assumes "i < length df"
  shows "calculate_vwap df ! i =
     trade.extend (df ! i)
       (vwap_row.fields
          (price (df ! i) * of_nat (size_col (df ! i)))
          (sum_list (map size_col (take (Suc i) df)))
          (sum_list (map (\<lambda>r. price r * of_nat (size_col r)) (take (Suc i) df)))
          (truediv (sum_list (map (\<lambda>r. price r * of_nat (size_col r)) (take (Suc i) df)))
             (sum_list (map size_col (take (Suc i) df)))))"
  using assms by (simp add: calculate_vwap_def Let_def cumsum_nth take_map)

lemma truncate_calculate_vwap: "map trade.truncate (calculate_vwap df) = df"
  by (rule nth_equalityI) (simp_all add: calculate_vwap_nth trade.defs vwap_row.defs)

subsection \<open>The sort, under the library's promise\<close>

lemma is_argsort_mset: "is_argsort keys idx \<Longrightarrow> mset idx = mset [0..<length keys]"
  unfolding is_argsort_def by (metis mset_sort)

lemma sort_values_mset:
  assumes "is_argsort (map ts_event df) (argsort (map ts_event df))"
  shows "mset (sort_values argsort df) = mset df"
proof -
  have "mset (sort_values argsort df) = image_mset (\<lambda>i. df ! i) (mset (argsort (map ts_event df)))"
    by (simp add: sort_values_def)
  also have "\<dots> = image_mset (\<lambda>i. df ! i) (mset [0..<length df])"
    using is_argsort_mset [OF assms] by simp
  also have "\<dots> = mset (map (\<lambda>i. df ! i) [0..<length df])"
    by simp
  also have "\<dots> = mset df"
    by (simp add: map_nth)
  finally show ?thesis .
qed

lemma sort_values_sorted:
  assumes "is_argsort (map ts_event df) (argsort (map ts_event df))"
  shows "sorted (map ts_event (sort_values argsort df))"
proof -
  let ?idx = "argsort (map ts_event df)"
  have "set ?idx = set [0..<length df]"
    using is_argsort_mset [OF assms] by (metis length_map mset_eq_setD)
  then have "\<forall>i \<in> set ?idx. i < length df"
    by simp
  then have "map ts_event (sort_values argsort df) = map (\<lambda>i. map ts_event df ! i) ?idx"
    by (simp add: sort_values_def)
  then show ?thesis
    using assms by (simp add: is_argsort_def)
qed

lemma is_argsort_Nil: "is_argsort [] idx \<longleftrightarrow> idx = []"
  by (auto simp: is_argsort_def) (metis length_sort length_0_conv list.size(3))

lemma is_argsort_single: "is_argsort [k] idx \<longleftrightarrow> idx = [0]"
proof
  assume a: "is_argsort [k] idx"
  then have "mset idx = {#0#}"
    using is_argsort_mset [OF a] by simp
  then show "idx = [0]"
    by (simp add: mset_single_iff_right)
next
  assume "idx = [0]"
  then show "is_argsort [k] idx"
    by (simp add: is_argsort_def)
qed

subsection \<open>Group sums\<close>

lemma sum_groups:
  fixes w :: "'r \<Rightarrow> nat" and key :: "'r \<Rightarrow> 'k"
  assumes "finite K" and "key ` set df \<subseteq> K"
  shows "(\<Sum>k\<in>K. sum_list (map w (filter (\<lambda>r. key r = k) df))) = sum_list (map w df)"
  using assms(2)
proof (induction df)
  case Nil
  then show ?case by simp
next
  case (Cons r df)
  have k: "key r \<in> K"
    using Cons.prems by simp
  have "(\<Sum>k\<in>K. sum_list (map w (filter (\<lambda>r'. key r' = k) (r # df))))
      = (\<Sum>k\<in>K. (if k = key r then w r else 0) + sum_list (map w (filter (\<lambda>r'. key r' = k) df)))"
    by (intro sum.cong) auto
  also have "\<dots> = (\<Sum>k\<in>K. if k = key r then w r else 0)
      + (\<Sum>k\<in>K. sum_list (map w (filter (\<lambda>r'. key r' = k) df)))"
    by (simp add: sum.distrib)
  also have "(\<Sum>k\<in>K. if k = key r then w r else 0) = w r"
    using assms(1) k by simp
  also have "(\<Sum>k\<in>K. sum_list (map w (filter (\<lambda>r'. key r' = k) df))) = sum_list (map w df)"
    using Cons by simp
  finally show ?case by simp
qed

lemma groupby_minute_size_total:
  "sum_list (map snd (groupby_minute_size mf df)) = sum_list (map size_col df)"
proof -
  let ?keys = "sort (remdups (map (\<lambda>r. mf (ts_event r)) df))"
  let ?g = "\<lambda>m. sum_list (map size_col (filter (\<lambda>r. mf (ts_event r) = m) df))"
  have d: "distinct ?keys" and s: "set ?keys = (\<lambda>r. mf (ts_event r)) ` set df"
    by simp_all
  have "sum_list (map snd (groupby_minute_size mf df)) = sum_list (map ?g ?keys)"
    by (simp add: groupby_minute_size_def o_def)
  also have "\<dots> = sum ?g (set ?keys)"
    using d by (simp add: sum_list_distinct_conv_sum_set)
  also have "\<dots> = sum_list (map size_col df)"
    by (rule sum_groups) (simp_all add: s)
  finally show ?thesis .
qed

lemma hourly_stats_eq:
  "hourly_stats (fetch_and_chart_trades hf mf argsort s e trades_df) =
     groupby_hour_price hf (normalized argsort s e trades_df)"
  by (simp add: fetch_and_chart_trades_def Let_def)

lemma day_high_eq:
  "day_high (fetch_and_chart_trades hf mf argsort s e trades_df) =
     series_max (map price (normalized argsort s e trades_df))"
  by (simp add: fetch_and_chart_trades_def Let_def)

lemma day_low_eq:
  "day_low (fetch_and_chart_trades hf mf argsort s e trades_df) =
     series_min (map price (normalized argsort s e trades_df))"
  by (simp add: fetch_and_chart_trades_def Let_def)

lemma volume_by_minute_eq:
  "volume_by_minute (fetch_and_chart_trades hf mf argsort s e trades_df) =
     groupby_minute_size mf (out_df (fetch_and_chart_trades hf mf argsort s e trades_df))"
  by (simp add: fetch_and_chart_trades_def Let_def)

lemma label_rows_base:
  "map trade.truncate (label_rows hf df) = map trade.truncate df"
  "map size_col (label_rows hf df) = map size_col df"
  "map vwap (label_rows hf df) = map vwap df"
proof -
  obtain f where f: "label_rows hf df = map f df"
    and p: "\<And>r. symbol (f r) = symbol r" "\<And>r. ts_event (f r) = ts_event r"
      "\<And>r. price (f r) = price r" "\<And>r. size_col (f r) = size_col r"
      "\<And>r. vwap (f r) = vwap r"
    by (rule label_rows_rowwise [of hf df]) blast
  show "map trade.truncate (label_rows hf df) = map trade.truncate df"
    "map size_col (label_rows hf df) = map size_col df"
    "map vwap (label_rows hf df) = map vwap df"
    by (simp_all add: f p trade.truncate_def)
qed

lemma normalized_mset:
  assumes "is_argsort (map ts_event (filter_range s e (calculate_vwap trades_df)))
             (argsort (map ts_event (filter_range s e (calculate_vwap trades_df))))"
  shows "mset (normalized argsort s e trades_df) = mset (filter_range s e (calculate_vwap trades_df))"
  unfolding normalized_def using assms by (rule sort_values_mset)

lemma truncate_filter_range:
  "map trade.truncate (filter_range s e (calculate_vwap trades_df))
     = filter (\<lambda>t. s \<le> ts_event t \<and> ts_event t \<le> e) trades_df"
proof -
  have "map trade.truncate (filter_range s e (calculate_vwap trades_df))
      = filter (\<lambda>t. s \<le> ts_event t \<and> ts_event t \<le> e) (map trade.truncate (calculate_vwap trades_df))"
    by (simp add: filter_range_def filter_map o_def trade.truncate_def)
  then show ?thesis
    by (simp add: truncate_calculate_vwap)
qed


lemma demo_argsort:
  "aquicksort [1734966000000000000, 1734964200000000000, 1734964230000000000,
     1734964260000000000, 1734964260000000000] = [1, 2, 3, 4, 0]"
  by code_simp

lemma demo_normalized:
  "normalized aquicksort demo_start demo_end demo_trades =
    [\<lparr>symbol = ''PLTR'', ts_event = 1734964200000000000, price = 80,
        size_col = 100, volume_price = 8000, cumulative_volume = 330,
        cumulative_volume_price = 26230, vwap = Fin (2623 / 33)\<rparr>,
     \<lparr>symbol = ''PLTR'', ts_event = 1734964230000000000, price = 81,
        size_col = 5, volume_price = 405, cumulative_volume = 335,
        cumulative_volume_price = 26635, vwap = Fin (5327 / 67)\<rparr>,
     \<lparr>symbol = ''PLTR'', ts_event = 1734964260000000000, price = 82,
        size_col = 50, volume_price = 4100, cumulative_volume = 385,
        cumulative_volume_price = 30735, vwap = Fin (6147 / 77)\<rparr>,
     \<lparr>symbol = ''PLTR'', ts_event = 1734964260000000000, price = 82,
        size_col = 10, volume_price = 820, cumulative_volume = 395,
        cumulative_volume_price = 31555, vwap = Fin (6311 / 79)\<rparr>,
     \<lparr>symbol = ''PLTR'', ts_event = 1734966000000000000, price = 81,
        size_col = 30, volume_price = 2430, cumulative_volume = 230,
        cumulative_volume_price = 18230, vwap = Fin (1823 / 23)\<rparr>]"
  by (simp add: normalized_def sort_values_def filter_range_def demo_start_def demo_end_def
      calculate_vwap_def demo_trades_def cumsum_def truediv_def Let_def trade.defs vwap_row.defs
      demo_argsort)

lemma demo_out_df:
  "out_df demo_chart =
    [\<lparr>symbol = ''PLTR'', ts_event = 1734964200000000000, price = 80,
        size_col = 100, volume_price = 8000, cumulative_volume = 330,
        cumulative_volume_price = 26230, vwap = Fin (2623 / 33),
        hour = ''2024-12-23 09:00'', is_hourly_high = False,
        is_hourly_low = True, is_day_high = False, is_day_low = True,
        note_col = ''DAY_LOW''\<rparr>,
     \<lparr>symbol = ''PLTR'', ts_event = 1734964230000000000, price = 81,
        size_col = 5, volume_price = 405, cumulative_volume = 335,
        cumulative_volume_price = 26635, vwap = Fin (5327 / 67),
        hour = ''2024-12-23 09:00'', is_hourly_high = False,
        is_hourly_low = False, is_day_high = False, is_day_low = False,
        note_col = ''''\<rparr>,
     \<lparr>symbol = ''PLTR'', ts_event = 1734964260000000000, price = 82,
        size_col = 50, volume_price = 4100, cumulative_volume = 385,
        cumulative_volume_price = 30735, vwap = Fin (6147 / 77),
        hour = ''2024-12-23 09:00'', is_hourly_high = True,
        is_hourly_low = False, is_day_high = True, is_day_low = False,
        note_col = ''DAY_HIGH''\<rparr>,
     \<lparr>symbol = ''PLTR'', ts_event = 1734964260000000000, price = 82,
        size_col = 10, volume_price = 820, cumulative_volume = 395,
        cumulative_volume_price = 31555, vwap = Fin (6311 / 79),
        hour = ''2024-12-23 09:00'', is_hourly_high = True,
        is_hourly_low = False, is_day_high = True, is_day_low = False,
        note_col = ''DAY_HIGH''\<rparr>,
     \<lparr>symbol = ''PLTR'', ts_event = 1734966000000000000, price = 81,
        size_col = 30, volume_price = 2430, cumulative_volume = 230,
        cumulative_volume_price = 18230, vwap = Fin (1823 / 23),
        hour = ''2024-12-23 10:00'', is_hourly_high = True,
        is_hourly_low = True, is_day_high = False, is_day_low = False,
        note_col = ''HOUR_LOW''\<rparr>]"
  unfolding demo_chart_def out_df_eq demo_normalized
  by (simp add: label_rows_def add_notes_map mark_hour_def init_flags_def groupby_hour_price_def
      demo_hour_fmt_def Let_def vwap_row.defs flagged_row.defs noted_row.defs)

lemma edge_argsort: "aquicksort [1734998400000000000, 1734912000000000000] = [1, 0]"
  by code_simp

lemma edge_filtered:
  "map ts_event (filter_range demo_start demo_end (calculate_vwap edge_trades))
     = [1734998400000000000, 1734912000000000000]"
  by (simp add: filter_range_def calculate_vwap_def edge_trades_def demo_start_def demo_end_def
      Let_def trade.defs vwap_row.defs)

lemma empty_argsort: "aquicksort [] = []"
  by code_simp

section \<open>The claims\<close>

text \<open>
  C9. Every row of the final table, hence every exported row, has one note: the label of
  the last assignment that applies to it, in the order \<^verbatim>\<open>DAY_LOW\<close> over \<^verbatim>\<open>DAY_HIGH\<close> over
  \<^verbatim>\<open>HOUR_LOW\<close> over \<^verbatim>\<open>HOUR_HIGH\<close>; the note is empty exactly when none of the four flags is
  set; and the row is exported with that note.
\<close>

theorem note_priority:
  assumes "r \<in> set (out_df (fetch_and_chart_trades hour_fmt minute_fmt argsort start_ts end_ts trades_df))"
  shows "note_col r =
           (if is_day_low r then ''DAY_LOW''
            else if is_day_high r then ''DAY_HIGH''
            else if is_hourly_low r then ''HOUR_LOW''
            else if is_hourly_high r then ''HOUR_HIGH''
            else '''')
         \<and> (note_col r = '''' \<longleftrightarrow>
              \<not> is_day_low r \<and> \<not> is_day_high r \<and> \<not> is_hourly_low r \<and> \<not> is_hourly_high r)
         \<and> (symbol r, ts_event r, price r, vwap r, size_col r, note_col r)
              \<in> set (csv_rows (fetch_and_chart_trades hour_fmt minute_fmt argsort start_ts end_ts trades_df))"
proof -
  let ?X = "fetch_and_chart_trades hour_fmt minute_fmt argsort start_ts end_ts trades_df"
  obtain f where f: "label_rows hour_fmt (normalized argsort start_ts end_ts trades_df)
        = map f (normalized argsort start_ts end_ts trades_df)"
    and n: "\<And>r. note_col (f r) =
           (if is_day_low (f r) then ''DAY_LOW''
            else if is_day_high (f r) then ''DAY_HIGH''
            else if is_hourly_low (f r) then ''HOUR_LOW''
            else if is_hourly_high (f r) then ''HOUR_HIGH''
            else '''')"
    by (rule label_rows_rowwise [of hour_fmt "normalized argsort start_ts end_ts trades_df"]) blast
  from assms obtain r0 where "r = f r0"
    by (auto simp: out_df_eq f)
  then have 1: "note_col r =
           (if is_day_low r then ''DAY_LOW''
            else if is_day_high r then ''DAY_HIGH''
            else if is_hourly_low r then ''HOUR_LOW''
            else if is_hourly_high r then ''HOUR_HIGH''
            else '''')"
    using n by simp
  have 2: "note_col r = '''' \<longleftrightarrow>
      \<not> is_day_low r \<and> \<not> is_day_high r \<and> \<not> is_hourly_low r \<and> \<not> is_hourly_high r"
    by (subst 1) simp
  have 3: "(symbol r, ts_event r, price r, vwap r, size_col r, note_col r) \<in> set (csv_rows ?X)"
    using assms unfolding csv_rows_eq to_csv_def by (simp add: image_iff) blast
  show ?thesis
    using 1 2 3 by blast
qed

theorem note_priority_witness:
  "out_df demo_chart ! 4 \<in> set (out_df demo_chart)
   \<and> is_hourly_high (out_df demo_chart ! 4) \<and> is_hourly_low (out_df demo_chart ! 4)
   \<and> note_col (out_df demo_chart ! 4) = ''HOUR_LOW''
   \<and> out_df demo_chart ! 1 \<in> set (out_df demo_chart)
   \<and> note_col (out_df demo_chart ! 1) = ''''"
proof -
  have m4: "out_df demo_chart ! 4 \<in> set (out_df demo_chart)"
    and m1: "out_df demo_chart ! 1 \<in> set (out_df demo_chart)"
    by (simp_all add: demo_out_df)
  have flags4: "\<not> is_day_low (out_df demo_chart ! 4)" "\<not> is_day_high (out_df demo_chart ! 4)"
    "is_hourly_low (out_df demo_chart ! 4)" "is_hourly_high (out_df demo_chart ! 4)"
    by (simp_all add: demo_out_df)
  have flags1: "\<not> is_day_low (out_df demo_chart ! 1)" "\<not> is_day_high (out_df demo_chart ! 1)"
    "\<not> is_hourly_low (out_df demo_chart ! 1)" "\<not> is_hourly_high (out_df demo_chart ! 1)"
    by (simp_all add: demo_out_df)
  have "note_col (out_df demo_chart ! 4) = ''HOUR_LOW''"
    using note_priority [OF m4 [unfolded demo_chart_def], folded demo_chart_def] flags4
    by simp
  moreover have "note_col (out_df demo_chart ! 1) = ''''"
    using note_priority [OF m1 [unfolded demo_chart_def], folded demo_chart_def] flags1
    by simp
  ultimately show ?thesis
    using m4 m1 flags4 by blast
qed

text \<open>
  C5. In every batch, a row of the final table carries \<^verbatim>\<open>is_hourly_high\<close> exactly when its
  price equals the maximum price of the rows with its hour key, so every row that ties at
  the maximum of its hour is tagged; likewise \<^verbatim>\<open>is_hourly_low\<close> for the minimum of the hour,
  and \<^verbatim>\<open>is_day_high\<close> and \<^verbatim>\<open>is_day_low\<close> for the maximum and minimum of the whole table.
  The comparison is exact equality.
\<close>

theorem extrema_tag_every_tie:
  assumes "r \<in> set (out_df (fetch_and_chart_trades hour_fmt minute_fmt argsort start_ts end_ts trades_df))"
  shows "(is_hourly_high r \<longleftrightarrow>
            price r = Max (price ` {r' \<in> set (out_df (fetch_and_chart_trades hour_fmt minute_fmt argsort start_ts end_ts trades_df)).
                                  hour r' = hour r}))
       \<and> (is_hourly_low r \<longleftrightarrow>
            price r = Min (price ` {r' \<in> set (out_df (fetch_and_chart_trades hour_fmt minute_fmt argsort start_ts end_ts trades_df)).
                                  hour r' = hour r}))
       \<and> (is_day_high r \<longleftrightarrow>
            price r = Max (price ` set (out_df (fetch_and_chart_trades hour_fmt minute_fmt argsort start_ts end_ts trades_df))))
       \<and> (is_day_low r \<longleftrightarrow>
            price r = Min (price ` set (out_df (fetch_and_chart_trades hour_fmt minute_fmt argsort start_ts end_ts trades_df))))"
  using assms label_rows_flags [of r hour_fmt "normalized argsort start_ts end_ts trades_df"]
  unfolding out_df_eq by blast

theorem extrema_tag_every_tie_witness:
  "out_df demo_chart ! 2 \<in> set (out_df demo_chart)
   \<and> out_df demo_chart ! 3 \<in> set (out_df demo_chart)
   \<and> hour (out_df demo_chart ! 2) = hour (out_df demo_chart ! 3)
   \<and> price (out_df demo_chart ! 2) = price (out_df demo_chart ! 3)
   \<and> price (out_df demo_chart ! 2)
       = Max (price ` {r' \<in> set (out_df demo_chart). hour r' = hour (out_df demo_chart ! 2)})
   \<and> is_hourly_high (out_df demo_chart ! 2)
   \<and> is_hourly_high (out_df demo_chart ! 3)"
proof -
  have m: "out_df demo_chart ! 2 \<in> set (out_df demo_chart)"
    "out_df demo_chart ! 3 \<in> set (out_df demo_chart)"
    by (simp_all add: demo_out_df)
  have e: "hour (out_df demo_chart ! 2) = hour (out_df demo_chart ! 3)"
    "price (out_df demo_chart ! 2) = price (out_df demo_chart ! 3)"
    "is_hourly_high (out_df demo_chart ! 2)" "is_hourly_high (out_df demo_chart ! 3)"
    by (simp_all add: demo_out_df)
  show ?thesis
    using extrema_tag_every_tie [OF m(1) [unfolded demo_chart_def], folded demo_chart_def] m e
    by blast
qed

text \<open>
  C10. In a non-empty final table, a row flagged \<^verbatim>\<open>is_day_high\<close> is also flagged
  \<^verbatim>\<open>is_hourly_high\<close>, a row flagged \<^verbatim>\<open>is_day_low\<close> is also flagged \<^verbatim>\<open>is_hourly_low\<close>, and some
  row carries \<^verbatim>\<open>is_day_high\<close> and some row carries \<^verbatim>\<open>is_day_low\<close>.
\<close>

theorem day_extremum_is_hour_extremum:
  assumes "r \<in> set (out_df (fetch_and_chart_trades hour_fmt minute_fmt argsort start_ts end_ts trades_df))"
  shows "(is_day_high r \<longrightarrow> is_hourly_high r)
       \<and> (is_day_low r \<longrightarrow> is_hourly_low r)
       \<and> (\<exists>r' \<in> set (out_df (fetch_and_chart_trades hour_fmt minute_fmt argsort start_ts end_ts trades_df)).
             is_day_high r')
       \<and> (\<exists>r' \<in> set (out_df (fetch_and_chart_trades hour_fmt minute_fmt argsort start_ts end_ts trades_df)).
             is_day_low r')"
proof -
  let ?out = "label_rows hour_fmt (normalized argsort start_ts end_ts trades_df)"
  let ?P = "price ` set ?out"
  let ?G = "price ` {r' \<in> set ?out. hour r' = hour r}"
  have r: "r \<in> set ?out"
    using assms by (simp add: out_df_eq)
  have fin: "finite ?P" "finite ?G" and ne: "?P \<noteq> {}"
    and sub: "?G \<subseteq> ?P" and mem: "price r \<in> ?G"
    using r by auto
  have 1: "is_hourly_high r" if "is_day_high r"
  proof -
    have "price r = Max ?P"
      using that label_rows_flags(3) [OF r] by simp
    then have "Max ?G = price r"
      using fin sub mem by (intro Max_eqI) (auto simp: subset_iff)
    then show ?thesis
      using label_rows_flags(1) [OF r] by simp
  qed
  have 2: "is_hourly_low r" if "is_day_low r"
  proof -
    have "price r = Min ?P"
      using that label_rows_flags(4) [OF r] by simp
    then have "Min ?G = price r"
      using fin sub mem by (intro Min_eqI) (auto simp: subset_iff)
    then show ?thesis
      using label_rows_flags(2) [OF r] by simp
  qed
  obtain a where a: "a \<in> set ?out" "price a = Max ?P"
    using Max_in [OF fin(1) ne] by auto
  obtain b where b: "b \<in> set ?out" "price b = Min ?P"
    using Min_in [OF fin(1) ne] by auto
  have 3: "\<exists>r' \<in> set ?out. is_day_high r'"
    using a label_rows_flags(3) [OF a(1)] by blast
  have 4: "\<exists>r' \<in> set ?out. is_day_low r'"
    using b label_rows_flags(4) [OF b(1)] by blast
  show ?thesis
    unfolding out_df_eq using 1 2 3 4 by blast
qed

theorem day_extremum_is_hour_extremum_witness:
  "out_df demo_chart ! 2 \<in> set (out_df demo_chart)
   \<and> is_day_high (out_df demo_chart ! 2) \<and> is_hourly_high (out_df demo_chart ! 2)
   \<and> out_df demo_chart ! 0 \<in> set (out_df demo_chart)
   \<and> is_day_low (out_df demo_chart ! 0) \<and> is_hourly_low (out_df demo_chart ! 0)"
proof -
  have m: "out_df demo_chart ! 2 \<in> set (out_df demo_chart)"
    "out_df demo_chart ! 0 \<in> set (out_df demo_chart)"
    by (simp_all add: demo_out_df)
  have d: "is_day_high (out_df demo_chart ! 2)" "is_day_low (out_df demo_chart ! 0)"
    by (simp_all add: demo_out_df)
  show ?thesis
    using day_extremum_is_hour_extremum [OF m(1) [unfolded demo_chart_def], folded demo_chart_def]
      day_extremum_is_hour_extremum [OF m(2) [unfolded demo_chart_def], folded demo_chart_def]
      m d
    by blast
qed

text \<open>
  C7. Under the library's promise for the sort, the rows of the final table are, with
  their multiplicities, exactly the fetched trades whose \<^verbatim>\<open>ts_event\<close> lies in the closed
  range from \<open>start_ts\<close> to \<open>end_ts\<close>: a trade is dropped exactly when its instant is before
  the start or after the end, and a trade at either bound is kept.
\<close>

theorem range_filter_inclusive:
  assumes "is_argsort (map ts_event (filter_range start_ts end_ts (calculate_vwap trades_df)))
             (argsort (map ts_event (filter_range start_ts end_ts (calculate_vwap trades_df))))"
  shows "mset (map trade.truncate
             (out_df (fetch_and_chart_trades hour_fmt minute_fmt argsort start_ts end_ts trades_df)))
       = {#t \<in># mset trades_df. start_ts \<le> ts_event t \<and> ts_event t \<le> end_ts#}"
proof -
  have "mset (map trade.truncate
             (out_df (fetch_and_chart_trades hour_fmt minute_fmt argsort start_ts end_ts trades_df)))
      = image_mset trade.truncate (mset (normalized argsort start_ts end_ts trades_df))"
    by (simp add: out_df_eq label_rows_base(1))
  also have "\<dots> = mset (map trade.truncate (filter_range start_ts end_ts (calculate_vwap trades_df)))"
    using assms by (simp add: normalized_mset)
  also have "\<dots> = {#t \<in># mset trades_df. start_ts \<le> ts_event t \<and> ts_event t \<le> end_ts#}"
    by (simp add: truncate_filter_range)
  finally show ?thesis .
qed

theorem range_filter_inclusive_witness:
  "is_argsort (map ts_event (filter_range demo_start demo_end (calculate_vwap edge_trades)))
     (aquicksort (map ts_event (filter_range demo_start demo_end (calculate_vwap edge_trades))))
   \<and> mset (map trade.truncate
        (out_df (fetch_and_chart_trades demo_hour_fmt demo_minute_fmt aquicksort demo_start demo_end
           edge_trades)))
     = {#\<lparr>symbol = ''PLTR'', ts_event = demo_end, price = 82, size_col = 5\<rparr>,
        \<lparr>symbol = ''PLTR'', ts_event = demo_start, price = 80, size_col = 3\<rparr>#}"
proof -
  have a: "is_argsort (map ts_event (filter_range demo_start demo_end (calculate_vwap edge_trades)))
     (aquicksort (map ts_event (filter_range demo_start demo_end (calculate_vwap edge_trades))))"
    by (simp add: edge_filtered edge_argsort is_argsort_def)
  have "{#t \<in># mset edge_trades. demo_start \<le> ts_event t \<and> ts_event t \<le> demo_end#}
      = {#\<lparr>symbol = ''PLTR'', ts_event = demo_end, price = 82, size_col = 5\<rparr>,
        \<lparr>symbol = ''PLTR'', ts_event = demo_start, price = 80, size_col = 3\<rparr>#}"
    by (simp add: edge_trades_def demo_start_def demo_end_def)
  then show ?thesis
    using range_filter_inclusive [where argsort = aquicksort and start_ts = demo_start
        and end_ts = demo_end and trades_df = edge_trades and hour_fmt = demo_hour_fmt
        and minute_fmt = demo_minute_fmt] a
    by simp
qed

text \<open>
  C8. The totals of the minute buckets add up to the sum of \<^verbatim>\<open>size\<close> over the final table,
  which is the sum of \<^verbatim>\<open>size\<close> over the filtered and sorted table it was built from.
\<close>

theorem minute_volume_total:
  "sum_list (map snd (volume_by_minute
       (fetch_and_chart_trades hour_fmt minute_fmt argsort start_ts end_ts trades_df)))
     = sum_list (map size_col
         (out_df (fetch_and_chart_trades hour_fmt minute_fmt argsort start_ts end_ts trades_df)))
   \<and> sum_list (map size_col
         (out_df (fetch_and_chart_trades hour_fmt minute_fmt argsort start_ts end_ts trades_df)))
     = sum_list (map size_col (normalized argsort start_ts end_ts trades_df))"
  by (simp add: volume_by_minute_eq groupby_minute_size_total out_df_eq label_rows_base(2))

theorem minute_volume_total_witness:
  "volume_by_minute demo_chart =
     [(''2024-12-23 09:30'', 105), (''2024-12-23 09:31'', 60), (''2024-12-23 10:00'', 30)]
   \<and> sum_list (map size_col (out_df demo_chart)) = 195"
proof -
  have v: "volume_by_minute demo_chart =
     [(''2024-12-23 09:30'', 105), (''2024-12-23 09:31'', 60), (''2024-12-23 10:00'', 30)]"
    unfolding demo_chart_def volume_by_minute_eq
    unfolding demo_chart_def [symmetric] demo_out_df
    by (simp add: groupby_minute_size_def demo_minute_fmt_def)
  show ?thesis
    using minute_volume_total [where argsort = aquicksort and start_ts = demo_start
        and end_ts = demo_end and trades_df = demo_trades and hour_fmt = demo_hour_fmt
        and minute_fmt = demo_minute_fmt, folded demo_chart_def] v
    by simp
qed

text \<open>
  C4. For a batch of one trade that lies in the range, the final table has one row, and
  all four flags of that row are set.
\<close>

theorem single_tick_all_flags:
  assumes "start_ts \<le> ts_event t" and "ts_event t \<le> end_ts"
    and "is_argsort [ts_event t] (argsort [ts_event t])"
  shows "map (\<lambda>r. (is_hourly_high r, is_hourly_low r, is_day_high r, is_day_low r))
           (out_df (fetch_and_chart_trades hour_fmt minute_fmt argsort start_ts end_ts [t]))
         = [(True, True, True, True)]"
proof -
  have idx: "argsort [ts_event t] = [0]"
    using assms(3) by (simp add: is_argsort_single)
  obtain v where v: "calculate_vwap [t] = [v]" and tv: "ts_event v = ts_event t"
    by (simp add: calculate_vwap_def Let_def cumsum_def trade.defs vwap_row.defs)
  have n: "normalized argsort start_ts end_ts [t] = [v]"
    using assms(1,2) by (simp add: normalized_def filter_range_def sort_values_def v tv idx)
  show ?thesis
    unfolding out_df_eq n
    by (simp add: label_rows_def add_notes_map mark_hour_def init_flags_def
        groupby_hour_price_def Let_def vwap_row.defs flagged_row.defs noted_row.defs)
qed

theorem single_tick_all_flags_witness:
  "demo_start \<le> ts_event (demo_trades ! 2) \<and> ts_event (demo_trades ! 2) \<le> demo_end
   \<and> is_argsort [ts_event (demo_trades ! 2)] (aquicksort [ts_event (demo_trades ! 2)])
   \<and> map (\<lambda>r. (is_hourly_high r, is_hourly_low r, is_day_high r, is_day_low r))
        (out_df (fetch_and_chart_trades demo_hour_fmt demo_minute_fmt aquicksort demo_start demo_end
           [demo_trades ! 2]))
      = [(True, True, True, True)]"
proof -
  have s: "aquicksort [1734964200000000000] = [0]"
    by code_simp
  have h: "demo_start \<le> ts_event (demo_trades ! 2)" "ts_event (demo_trades ! 2) \<le> demo_end"
    "is_argsort [ts_event (demo_trades ! 2)] (aquicksort [ts_event (demo_trades ! 2)])"
    by (simp_all add: demo_trades_def demo_start_def demo_end_def s is_argsort_def)
  show ?thesis
    using single_tick_all_flags [where argsort = aquicksort and t = "demo_trades ! 2"
        and start_ts = demo_start and end_ts = demo_end and hour_fmt = demo_hour_fmt
        and minute_fmt = demo_minute_fmt] h
    by simp
qed

text \<open>
  C6. When every fetched trade lies outside the range, the final table, the exported
  rows, the hourly statistics and the minute volumes are all empty, and the day's high and
  low are NaN, the value of \<^verbatim>\<open>max()\<close> and \<^verbatim>\<open>min()\<close> of an empty column. Every stage is a
  total function of the model: none has a failure to report.
\<close>

theorem empty_range_empty_outputs:
  assumes "\<forall>t \<in> set trades_df. ts_event t < start_ts \<or> end_ts < ts_event t"
    and "is_argsort [] (argsort [])"
  shows "out_df (fetch_and_chart_trades hour_fmt minute_fmt argsort start_ts end_ts trades_df) = []
       \<and> csv_rows (fetch_and_chart_trades hour_fmt minute_fmt argsort start_ts end_ts trades_df) = []
       \<and> hourly_stats (fetch_and_chart_trades hour_fmt minute_fmt argsort start_ts end_ts trades_df) = []
       \<and> volume_by_minute (fetch_and_chart_trades hour_fmt minute_fmt argsort start_ts end_ts trades_df) = []
       \<and> day_high (fetch_and_chart_trades hour_fmt minute_fmt argsort start_ts end_ts trades_df) = NaN
       \<and> day_low (fetch_and_chart_trades hour_fmt minute_fmt argsort start_ts end_ts trades_df) = NaN"
proof -
  have "map trade.truncate (filter_range start_ts end_ts (calculate_vwap trades_df)) = []"
    unfolding truncate_filter_range using assms(1) by (auto simp: filter_empty_conv)
  then have f: "filter_range start_ts end_ts (calculate_vwap trades_df) = []"
    by simp
  have idx: "argsort [] = []"
    using assms(2) by (simp add: is_argsort_Nil)
  have n: "normalized argsort start_ts end_ts trades_df = []"
    by (simp add: normalized_def sort_values_def f idx)
  have o: "out_df (fetch_and_chart_trades hour_fmt minute_fmt argsort start_ts end_ts trades_df) = []"
    by (simp add: out_df_eq n label_rows_def add_notes_map groupby_hour_price_def)
  show ?thesis
    unfolding csv_rows_eq volume_by_minute_eq hourly_stats_eq day_high_eq day_low_eq o n
    by (simp add: to_csv_def groupby_minute_size_def groupby_hour_price_def)
qed

theorem empty_range_empty_outputs_witness:
  "(ts_event (demo_trades ! 0) < 0 \<or> 10 < ts_event (demo_trades ! 0))
   \<and> is_argsort [] (aquicksort [])
   \<and> out_df (fetch_and_chart_trades demo_hour_fmt demo_minute_fmt aquicksort 0 10 demo_trades) = []
   \<and> csv_rows (fetch_and_chart_trades demo_hour_fmt demo_minute_fmt aquicksort 0 10 demo_trades) = []
   \<and> volume_by_minute (fetch_and_chart_trades demo_hour_fmt demo_minute_fmt aquicksort 0 10 demo_trades) = []"
proof -
  have a: "\<forall>t \<in> set demo_trades. ts_event t < 0 \<or> 10 < ts_event t"
    by (simp add: demo_trades_def)
  have b: "is_argsort [] (aquicksort [])"
    by (simp add: empty_argsort is_argsort_def)
  have c: "ts_event (demo_trades ! 0) < 0 \<or> 10 < ts_event (demo_trades ! 0)"
    by (simp add: demo_trades_def)
  show ?thesis
    using empty_range_empty_outputs [where argsort = aquicksort and trades_df = demo_trades
        and start_ts = 0 and end_ts = 10 and hour_fmt = demo_hour_fmt
        and minute_fmt = demo_minute_fmt] a b c
    by simp
qed

end
